theory Spec2Isabelle
  imports Main
begin

section \<open>Data model\<close>

text \<open>
  The interfaces of the library (\<^verbatim>\<open>interfaces.ts\<close>) type attributes, parameter values
  and relationship bodies loosely. A loosely typed value is a JSON value.
\<close>

datatype json =
    JNull
  | JBool bool
  | JNum int
  | JStr string
  | JArr "json list"
  | JObj "(string \<times> json) list"

text \<open>\<^verbatim>\<open>ResourceIdentifier\<close>: \<^verbatim>\<open>{type, id}\<close>.\<close>

record ResourceIdentifier =
  ri_type :: string
  ri_id :: string

text \<open>
  A relationship holds one identifier or an ordered sequence of identifiers.
\<close>

datatype 'a RelationshipReference = Single 'a | Collection "'a list"

text \<open>\<^verbatim>\<open>Resource\<close>: \<^verbatim>\<open>{type, id, attributes, relationships}\<close>.\<close>

record Resource =
  res_type :: string
  res_id :: string
  attributes :: "(string \<times> json) list"
  relationships :: "(string \<times> ResourceIdentifier RelationshipReference) list"

text \<open>
  \<^verbatim>\<open>StoreResource\<close>: the record of the store. \<^verbatim>\<open>persistedResource\<close> is \<^verbatim>\<open>null\<close> for a
  resource that was never persisted.
\<close>

record StoreResource =
  resource :: Resource
  persistedResource :: "Resource option"

text \<open>
  \<^verbatim>\<open>NgrxJsonApiStoreData\<close> is the nested dictionary \<^verbatim>\<open>data[type][id]\<close>. A JavaScript
  object keeps its keys in insertion order, so each level is an association list read
  with \<^const>\<open>map_of\<close>.
\<close>

type_synonym NgrxJsonApiStoreData = "(string \<times> (string \<times> StoreResource) list) list"

text \<open>The record the store data hold for an identifier: \<^verbatim>\<open>data[type][id]\<close>.\<close>

definition lookup_record :: "NgrxJsonApiStoreData \<Rightarrow> ResourceIdentifier \<Rightarrow> StoreResource option" where
  "lookup_record st i =
     (case map_of st (ri_type i) of
        None \<Rightarrow> None
      | Some byId \<Rightarrow> map_of byId (ri_id i))"

text \<open>
  \<^verbatim>\<open>QueryParams\<close>: a field is \<open>None\<close> when the key is not in the object
  (\<open>p_include\<close> is the key \<^verbatim>\<open>include\<close>, and so on).
\<close>

record QueryParams =
  p_include :: "json option"
  p_filtering :: "json option"
  p_sorting :: "json option"
  p_fields :: "json option"
  p_limit :: "json option"
  p_offset :: "json option"

text \<open>
  \<^verbatim>\<open>Query\<close>. Every field but \<^verbatim>\<open>type\<close> is optional in the calls the tests make
  (\<^verbatim>\<open>queryId\<close> too); \<open>None\<close> is JavaScript's \<^verbatim>\<open>undefined\<close>.
\<close>

record Query =
  queryId :: "string option"
  queryType :: "string option"
  q_type :: "string option"
  q_id :: "string option"
  params :: "QueryParams option"

text \<open>\<^verbatim>\<open>Document\<close> and \<^verbatim>\<open>Payload\<close>.\<close>

record Document =
  doc_data :: Resource

record Payload =
  jsonApiData :: "Document option"
  query :: "Query option"

text \<open>The actions of \<^verbatim>\<open>actions.ts\<close> that the service dispatches.\<close>

datatype action =
    ApiApplyInitAction
  | ApiCreateInitAction Payload
  | ApiReadInitAction Payload
  | ApiUpdateInitAction Payload
  | ApiDeleteInitAction Payload
  | DeleteStoreResourceAction ResourceIdentifier
  | PatchStoreResourceAction Resource
  | PostStoreResourceAction Resource
  | RemoveQueryAction "string option"
  | QueryStoreInitAction Query

section \<open>The service (\<^verbatim>\<open>services.ts\<close>)\<close>

text \<open>
  \<^verbatim>\<open>NgrxJsonApiStore\<close>, as far as the service reads it, and the state of an
  \<^verbatim>\<open>NgrxJsonApiService\<close>: its snapshot of the store and the actions it has handed to
  \<^verbatim>\<open>store.dispatch\<close>, oldest first. The store itself (reducers and effects) is outside
  the service.
\<close>

record NgrxJsonApiStore =
  data :: NgrxJsonApiStoreData

record NgrxJsonApiService =
  storeSnapshot :: NgrxJsonApiStore
  dispatched :: "action list"

definition dispatch :: "action \<Rightarrow> NgrxJsonApiService \<Rightarrow> NgrxJsonApiService" where
  "dispatch a s = s\<lparr>dispatched := dispatched s @ [a]\<rparr>"

definition removeQuery :: "string option \<Rightarrow> NgrxJsonApiService \<Rightarrow> NgrxJsonApiService" where
  "removeQuery qid s = dispatch (RemoveQueryAction qid) s"

definition findInternal :: "Query \<Rightarrow> bool \<Rightarrow> NgrxJsonApiService \<Rightarrow> NgrxJsonApiService" where
  "findInternal q fromServer s =
     (if fromServer
      then dispatch (ApiReadInitAction \<lparr>jsonApiData = None, query = Some q\<rparr>) s
      else dispatch (QueryStoreInitAction q) s)"

subsection \<open>Observables\<close>



text \<open>
  The observable a find returns: the id given to \<^verbatim>\<open>selectResults\<close> (read when the
  observable is built), the callback of \<^verbatim>\<open>map\<close> (\<open>Inl\<close> when it throws) and the callback
  of \<^verbatim>\<open>finally\<close>. The latter is the closure \<^verbatim>\<open>() => this.removeQuery(query.queryId)\<close>: it
  reads the query object when it runs, so it takes the object as it is then.
\<close>

record 'a observable =
  source :: "string option"
  project :: "StoreResource list \<Rightarrow> string + 'a"
  finalizer :: "Query \<Rightarrow> NgrxJsonApiService \<Rightarrow> NgrxJsonApiService"





subsection \<open>findOne and findMany\<close>

text \<open>What \<^verbatim>\<open>findOne\<close> emits: \<^verbatim>\<open>null\<close>, a store record, or its resource.\<close>

datatype found = Null | FoundStoreResource StoreResource | FoundResource Resource

text \<open>The callback \<^verbatim>\<open>findOne\<close> gives to \<^verbatim>\<open>map\<close>.\<close>

definition findOne_project :: "bool \<Rightarrow> StoreResource list \<Rightarrow> string + found" where
  "findOne_project asResource it =
     (if length it = 0 then Inr Null
      else if length it = 1
        then Inr (if asResource then FoundResource (resource (hd it))
                  else FoundStoreResource (hd it))
      else Inl ''Unique result expected'')"

text \<open>
  \<^verbatim>\<open>findOne\<close> assigns \<^verbatim>\<open>query.queryType\<close> in the caller's object, calls
  \<^verbatim>\<open>findInternal\<close> and builds the observable. It returns the query object as it has
  left it, the service and the observable.
\<close>

definition findOne ::
  "Query \<Rightarrow> bool \<Rightarrow> bool \<Rightarrow> NgrxJsonApiService
     \<Rightarrow> Query \<times> NgrxJsonApiService \<times> found observable" where
  "findOne q fromServer asResource s =
     (let q' = q\<lparr>queryType := Some ''getOne''\<rparr>;
          s' = findInternal q' fromServer s
      in (q', s',
          \<lparr>source = queryId q',
           project = findOne_project asResource,
           finalizer = (\<lambda>qnow. removeQuery (queryId qnow))\<rparr>))"

text \<open>What \<^verbatim>\<open>findMany\<close> emits: the store records, or their resources.\<close>

datatype found_many = FoundStoreResources "StoreResource list" | FoundResources "Resource list"

definition findMany_project :: "bool \<Rightarrow> StoreResource list \<Rightarrow> string + found_many" where
  "findMany_project asResource it =
     Inr (if asResource then FoundResources (map resource it) else FoundStoreResources it)"

definition findMany ::
  "Query \<Rightarrow> bool \<Rightarrow> bool \<Rightarrow> NgrxJsonApiService
     \<Rightarrow> Query \<times> NgrxJsonApiService \<times> found_many observable" where
  "findMany q fromServer asResource s =
     (let q' = q\<lparr>queryType := Some ''getMany''\<rparr>;
          s' = findInternal q' fromServer s
      in (q', s',
          \<lparr>source = queryId q',
           project = findMany_project asResource,
           finalizer = (\<lambda>qnow. removeQuery (queryId qnow))\<rparr>))"

subsection \<open>Snapshots\<close>

text \<open>
  \<^verbatim>\<open>snapshot.data[type] && snapshot.data[type][id]\<close>: both lookups must find an object.
  The functions return the value and the service, which they leave as it is.
\<close>

definition getResourceSnapshot ::
  "ResourceIdentifier \<Rightarrow> NgrxJsonApiService \<Rightarrow> Resource option \<times> NgrxJsonApiService" where
  "getResourceSnapshot identifier s =
     (let snapshot = storeSnapshot s in
      case map_of (data snapshot) (ri_type identifier) of
        None \<Rightarrow> (None, s)
      | Some byId \<Rightarrow>
          (case map_of byId (ri_id identifier) of
             None \<Rightarrow> (None, s)
           | Some r \<Rightarrow> (Some (resource r), s)))"

definition getPersistedResourceSnapshot ::
  "ResourceIdentifier \<Rightarrow> NgrxJsonApiService \<Rightarrow> Resource option \<times> NgrxJsonApiService" where
  "getPersistedResourceSnapshot identifier s =
     (let snapshot = storeSnapshot s in
      case map_of (data snapshot) (ri_type identifier) of
        None \<Rightarrow> (None, s)
      | Some byId \<Rightarrow>
          (case map_of byId (ri_id identifier) of
             None \<Rightarrow> (None, s)
           | Some r \<Rightarrow> (persistedResource r, s)))"

subsection \<open>Local and remote edits\<close>

definition patchResource :: "Resource \<Rightarrow> bool \<Rightarrow> NgrxJsonApiService \<Rightarrow> NgrxJsonApiService" where
  "patchResource r toRemote s =
     (if toRemote
      then dispatch (ApiUpdateInitAction
        \<lparr>jsonApiData = Some \<lparr>doc_data =
            \<lparr>res_type = res_type r, res_id = res_id r,
             attributes = attributes r, relationships = relationships r\<rparr>\<rparr>,
         query = Some \<lparr>queryId = None, queryType = Some ''update'',
            q_type = Some (res_type r), q_id = Some (res_id r), params = None\<rparr>\<rparr>) s
      else dispatch (PatchStoreResourceAction r) s)"

definition postResource :: "Resource \<Rightarrow> bool \<Rightarrow> NgrxJsonApiService \<Rightarrow> NgrxJsonApiService" where
  "postResource r toRemote s =
     (if toRemote
      then dispatch (ApiCreateInitAction
        \<lparr>jsonApiData = Some \<lparr>doc_data =
            \<lparr>res_type = res_type r, res_id = res_id r,
             attributes = attributes r, relationships = relationships r\<rparr>\<rparr>,
         query = Some \<lparr>queryId = None, queryType = Some ''create'',
            q_type = Some (res_type r), q_id = None, params = None\<rparr>\<rparr>) s
      else dispatch (PostStoreResourceAction r) s)"

definition deleteResource ::
  "ResourceIdentifier \<Rightarrow> bool \<Rightarrow> NgrxJsonApiService \<Rightarrow> NgrxJsonApiService" where
  "deleteResource resourceId toRemote s =
     (if toRemote
      then dispatch (ApiDeleteInitAction
        \<lparr>jsonApiData = None,
         query = Some \<lparr>queryId = None, queryType = Some ''deleteOne'',
            q_type = Some (ri_type resourceId), q_id = Some (ri_id resourceId),
            params = None\<rparr>\<rparr>) s
      else dispatch (DeleteStoreResourceAction resourceId) s)"

definition apply_changes :: "NgrxJsonApiService \<Rightarrow> NgrxJsonApiService" where
  "apply_changes s = dispatch ApiApplyInitAction s"

section \<open>The remote API (\<^verbatim>\<open>api.ts\<close>)\<close>

text \<open>
  \<^verbatim>\<open>OperationType\<close>, \<^verbatim>\<open>ResourceDefinition\<close> and what \<^verbatim>\<open>config.urlBuilder\<close> may hold: a
  generator per concern, \<open>None\<close> where the key is not set.
\<close>

datatype OperationType = GET | DELETE | PATCH | POST

record ResourceDefinition =
  def_type :: string
  collectionPath :: "string option"

record UrlBuilder =
  ub_generateIncludedQueryParams :: "(json \<Rightarrow> string) option"
  ub_generateFilteringQueryParams :: "(json \<Rightarrow> string) option"
  ub_generateFieldsQueryParams :: "(json \<Rightarrow> string) option"
  ub_generateSortingQueryParams :: "(json \<Rightarrow> string) option"
  ub_generateQueryParams ::
    "(string \<Rightarrow> string \<Rightarrow> string \<Rightarrow> string \<Rightarrow> string \<Rightarrow> string \<Rightarrow> string) option"

text \<open>
  \<^verbatim>\<open>NgrxJsonApiConfig\<close>: \<open>config_urlBuilder\<close> is \<open>None\<close> when the configuration has no
  property \<^verbatim>\<open>urlBuilder\<close>.
\<close>

record NgrxJsonApiConfig =
  apiUrl :: string
  resourceDefinitions :: "ResourceDefinition list"
  config_urlBuilder :: "UrlBuilder option"

text \<open>
  An \<^verbatim>\<open>NgrxJsonApi\<close>: its configuration and what the module takes from elsewhere. The
  five default generators are the functions \<^verbatim>\<open>api.ts\<close> imports from \<^verbatim>\<open>utils.ts\<close>;
  \<open>encodeURIComponent\<close>, \<open>toString\<close> (the conversion of \<^verbatim>\<open>'page[limit]=' + value\<close>) and
  \<open>stringify\<close> (\<^verbatim>\<open>JSON.stringify({ data: d })\<close>) are JavaScript's.
\<close>

record NgrxJsonApi =
  config :: NgrxJsonApiConfig
  generateIncludedQueryParams :: "json \<Rightarrow> string"
  generateFilteringQueryParams :: "json \<Rightarrow> string"
  generateFieldsQueryParams :: "json \<Rightarrow> string"
  generateSortingQueryParams :: "json \<Rightarrow> string"
  generateQueryParams ::
    "string \<Rightarrow> string \<Rightarrow> string \<Rightarrow> string \<Rightarrow> string \<Rightarrow> string \<Rightarrow> string"
  encodeURIComponent :: "string \<Rightarrow> string"
  toString :: "json \<Rightarrow> string"
  stringify :: "Resource \<Rightarrow> string"

definition definitions :: "NgrxJsonApi \<Rightarrow> ResourceDefinition list" where
  "definitions api = resourceDefinitions (config api)"

text \<open>A template literal prints \<^verbatim>\<open>undefined\<close> as the word.\<close>

definition template :: "string option \<Rightarrow> string" where
  "template v = (case v of None \<Rightarrow> ''undefined'' | Some s \<Rightarrow> s)"

text \<open>
  \<^verbatim>\<open>_.find(this.definitions, { type: type })\<close> is the first definition of that type; a
  definition's type is a string, so none matches \<^verbatim>\<open>undefined\<close>.
\<close>

definition collectionPathFor :: "NgrxJsonApi \<Rightarrow> string option \<Rightarrow> string option" where
  "collectionPathFor api type =
     (case find (\<lambda>d. Some (def_type d) = type) (definitions api) of
        Some definition \<Rightarrow> Some (template (collectionPath definition))
      | None \<Rightarrow> type)"

definition collectionUrlFor :: "NgrxJsonApi \<Rightarrow> string option \<Rightarrow> string" where
  "collectionUrlFor api type =
     (let collectionPath = collectionPathFor api type
      in apiUrl (config api) @ ''/'' @ template collectionPath)"

definition resourcePathFor :: "NgrxJsonApi \<Rightarrow> string \<Rightarrow> string \<Rightarrow> string" where
  "resourcePathFor api type ident =
     (let collectionPath = collectionPathFor api (Some type)
      in template collectionPath @ ''/'' @ encodeURIComponent api ident)"

definition resourceUrlFor :: "NgrxJsonApi \<Rightarrow> string \<Rightarrow> string \<Rightarrow> string" where
  "resourceUrlFor api type ident =
     (let resourcePath = resourcePathFor api type ident
      in apiUrl (config api) @ ''/'' @ resourcePath)"

text \<open>
  JavaScript's truthiness of an optional string: \<^verbatim>\<open>undefined\<close> and the empty string are
  falsy. \<open>type_and_id\<close> is the guard \<^verbatim>\<open>query.type && query.id\<close>, with both values when it
  holds.
\<close>

definition truthy :: "string option \<Rightarrow> bool" where
  "truthy v = (case v of None \<Rightarrow> False | Some s \<Rightarrow> s \<noteq> [])"

definition type_and_id :: "Query \<Rightarrow> (string \<times> string) option" where
  "type_and_id q =
     (case q_type q of
        None \<Rightarrow> None
      | Some t \<Rightarrow>
          (case q_id q of
             None \<Rightarrow> None
           | Some i \<Rightarrow> if t \<noteq> [] \<and> i \<noteq> [] then Some (t, i) else None))"

text \<open>
  \<^verbatim>\<open>urlBuilder\<close> is a \<^verbatim>\<open>switch\<close> whose cases have no \<^verbatim>\<open>break\<close>: a case that does not
  return falls through to the next one. Each case is a function that ends in the next.
\<close>

definition urlBuilder_POST :: "NgrxJsonApi \<Rightarrow> Query \<Rightarrow> string" where
  "urlBuilder_POST api q = collectionUrlFor api (q_type q)"

definition urlBuilder_PATCH :: "NgrxJsonApi \<Rightarrow> Query \<Rightarrow> string" where
  "urlBuilder_PATCH api q =
     (case type_and_id q of
        Some (t, i) \<Rightarrow> resourceUrlFor api t i
      | None \<Rightarrow> urlBuilder_POST api q)"

definition urlBuilder_DELETE :: "NgrxJsonApi \<Rightarrow> Query \<Rightarrow> string" where
  "urlBuilder_DELETE api q =
     (case type_and_id q of
        Some (t, i) \<Rightarrow> resourceUrlFor api t i
      | None \<Rightarrow> urlBuilder_PATCH api q)"

definition urlBuilder_GET :: "NgrxJsonApi \<Rightarrow> Query \<Rightarrow> string" where
  "urlBuilder_GET api q =
     (case type_and_id q of
        Some (t, i) \<Rightarrow> resourceUrlFor api t i
      | None \<Rightarrow>
          if truthy (q_type q) then collectionUrlFor api (q_type q)
          else urlBuilder_DELETE api q)"

definition urlBuilder :: "NgrxJsonApi \<Rightarrow> Query \<Rightarrow> OperationType \<Rightarrow> string" where
  "urlBuilder api q operation =
     (case operation of
        GET \<Rightarrow> urlBuilder_GET api q
      | DELETE \<Rightarrow> urlBuilder_DELETE api q
      | PATCH \<Rightarrow> urlBuilder_PATCH api q
      | POST \<Rightarrow> urlBuilder_POST api q)"

subsection \<open>Requests\<close>

text \<open>
  A method of the API returns an observable: the one of \<^verbatim>\<open>Observable.throw(message)\<close> or
  the one of \<^verbatim>\<open>this.http.request(request)\<close>. Reading a property of \<^verbatim>\<open>undefined\<close> throws
  a \<^verbatim>\<open>TypeError\<close> instead.
\<close>

datatype RequestMethod = Get | Post | Patch | Delete

record RequestOptions =
  req_method :: RequestMethod
  req_url :: string
  req_body :: "string option"
  req_headers :: "(string \<times> string) list"

datatype error = TypeError

datatype response = ObservableThrow string | HttpRequest RequestOptions

definition headers :: "(string \<times> string) list" where
  "headers = [(''Content-Type'', ''application/vnd.api+json''),
              (''Accept'', ''application/vnd.api+json'')]"

definition request :: "RequestMethod \<Rightarrow> string \<Rightarrow> string option \<Rightarrow> response" where
  "request m u b = HttpRequest \<lparr>req_method = m, req_url = u, req_body = b, req_headers = headers\<rparr>"

text \<open>
  \<^verbatim>\<open>typeof x\<close> is a string; the guards compare it with the value \<^verbatim>\<open>undefined\<close>. A value
  that is a string or \<^verbatim>\<open>undefined\<close> is a \<open>string option\<close>, and \<^verbatim>\<open>===\<close> on two of them is
  equality.
\<close>

definition typeof :: "'a option \<Rightarrow> string" where
  "typeof v = (case v of None \<Rightarrow> ''undefined'' | Some _ \<Rightarrow> ''object'')"

definition typeof_is_undefined :: "'a option \<Rightarrow> bool" where
  "typeof_is_undefined v = (Some (typeof v) = (None :: string option))"

text \<open>The generators \<^verbatim>\<open>find\<close> uses: the configured one where there is one.\<close>

definition chosen :: "'g \<Rightarrow> (UrlBuilder \<Rightarrow> 'g option) \<Rightarrow> NgrxJsonApi \<Rightarrow> 'g" where
  "chosen dflt sel api =
     (case config_urlBuilder (config api) of
        None \<Rightarrow> dflt
      | Some ub \<Rightarrow> (case sel ub of None \<Rightarrow> dflt | Some g \<Rightarrow> g))"

text \<open>\<^verbatim>\<open>_.isEmpty(query.params)\<close>: the object has no key.\<close>

definition isEmpty :: "QueryParams \<Rightarrow> bool" where
  "isEmpty p = (p_include p = None \<and> p_filtering p = None \<and> p_sorting p = None
     \<and> p_fields p = None \<and> p_limit p = None \<and> p_offset p = None)"

text \<open>
  One parameter string of \<^verbatim>\<open>find\<close>: it starts empty and is assigned inside the block
  guarded by \<^verbatim>\<open>query.hasOwnProperty('params') && !_.isEmpty(query.params)\<close>, when the key is
  in the parameters.
\<close>

definition param_of :: "Query \<Rightarrow> (QueryParams \<Rightarrow> json option) \<Rightarrow> (json \<Rightarrow> string) \<Rightarrow> string" where
  "param_of q key enc =
     (case params q of
        None \<Rightarrow> []
      | Some p \<Rightarrow>
          if isEmpty p then []
          else (case key p of None \<Rightarrow> [] | Some v \<Rightarrow> enc v))"

definition find_api :: "NgrxJsonApi \<Rightarrow> Query option \<Rightarrow> error + response" where
  "find_api api query_arg =
     (let gIncluded = chosen (generateIncludedQueryParams api) ub_generateIncludedQueryParams api;
          gFiltering = chosen (generateFilteringQueryParams api) ub_generateFilteringQueryParams api;
          gFields = chosen (generateFieldsQueryParams api) ub_generateFieldsQueryParams api;
          gSorting = chosen (generateSortingQueryParams api) ub_generateSortingQueryParams api;
          gQuery = chosen (generateQueryParams api) ub_generateQueryParams api
      in if typeof_is_undefined query_arg then Inr (ObservableThrow ''Query not found'')
         else (case query_arg of
           None \<Rightarrow> Inl TypeError
         | Some q \<Rightarrow>
             (let includedParam = param_of q p_include gIncluded;
                  filteringParams = param_of q p_filtering gFiltering;
                  sortingParams = param_of q p_sorting gSorting;
                  fieldsParams = param_of q p_fields gFields;
                  limitParams = param_of q p_limit (\<lambda>v. ''page[limit]='' @ toString api v);
                  offsetParams = param_of q p_offset (\<lambda>v. ''page[offset]='' @ toString api v);
                  queryParams = gQuery includedParam filteringParams sortingParams
                     fieldsParams offsetParams limitParams
              in Inr (request Get (urlBuilder api q GET @ queryParams) None))))"




section \<open>The query registry\<close>







section \<open>Denormalisation\<close>

text \<open>
  Modelled from the spec: \<^verbatim>\<open>denormaliseResource\<close> (\<^verbatim>\<open>utils.ts\<close>) is not among the
  sources; the service only calls it. The specification, section 4.4: each relationship
  reference is replaced by the referenced record's current resource, recursing into its
  relationships; the identifiers on the current expansion path are kept, and an
  identifier that is on the path already becomes a reference-only placeholder; a
  reference to a resource the store does not hold becomes an unresolved-reference
  marker.
\<close>

datatype Denormalised =
    Expanded ResourceIdentifier "(string \<times> json) list"
      "(string \<times> Denormalised RelationshipReference) list"
  | ReferencePlaceholder ResourceIdentifier
  | UnresolvedReference ResourceIdentifier

definition store_identifiers :: "NgrxJsonApiStoreData \<Rightarrow> ResourceIdentifier list" where
  "store_identifiers st =
     concat (map (\<lambda>(t, byId). map (\<lambda>(i, r). \<lparr>ri_type = t, ri_id = i\<rparr>) byId) st)"

lemma lookup_record_listed:
  "lookup_record st i = Some r \<Longrightarrow> i \<in> set (store_identifiers st)"
proof -
  assume a: "lookup_record st i = Some r"
  then obtain byId where b: "map_of st (ri_type i) = Some byId" and c: "map_of byId (ri_id i) = Some r"
    by (auto simp: lookup_record_def split: option.splits)
  from b have b': "(ri_type i, byId) \<in> set st" by (rule map_of_SomeD)
  from c have c': "(ri_id i, r) \<in> set byId" by (rule map_of_SomeD)
  have "\<lparr>ri_type = ri_type i, ri_id = ri_id i\<rparr> \<in> set (store_identifiers st)"
    unfolding store_identifiers_def using b' c' by force
  moreover have "\<lparr>ri_type = ri_type i, ri_id = ri_id i\<rparr> = i"
    by (cases i) simp
  ultimately show ?thesis by simp
qed

text \<open>
  Modelled from the spec: the recursion of \<^verbatim>\<open>denormalize\<close> (section 4.4), which
  \<^verbatim>\<open>utils.ts\<close> holds and the sources do not. \<open>path\<close> is the identifiers on the current
  expansion path. The recursion ends because each step puts an identifier of the store
  on the path that was not on it.
\<close>

function expand ::
  "NgrxJsonApiStoreData \<Rightarrow> ResourceIdentifier list \<Rightarrow> ResourceIdentifier \<Rightarrow> Denormalised" where
  "expand st path i =
     (if i \<in> set path then ReferencePlaceholder i
      else (case lookup_record st i of
        None \<Rightarrow> UnresolvedReference i
      | Some r \<Rightarrow>
          Expanded i (attributes (resource r))
            (map (\<lambda>(name, ref). (name, map_RelationshipReference (expand st (i # path)) ref))
               (relationships (resource r)))))"
  by pat_completeness auto
termination
proof (relation "measure (\<lambda>(st, path, i). card (set (store_identifiers st) - set path))")
  show "wf (measure (\<lambda>(st, path, i). card (set (store_identifiers st) - set path)))"
    by simp
next
  fix st :: NgrxJsonApiStoreData and path i r
  assume fresh: "i \<notin> set path" and found: "lookup_record st i = Some r"
  have listed: "i \<in> set (store_identifiers st)"
    using found by (rule lookup_record_listed)
  have "set (store_identifiers st) - set (i # path)
        \<subset> set (store_identifiers st) - set path"
    using fresh listed by auto
  then have "card (set (store_identifiers st) - set (i # path))
        < card (set (store_identifiers st) - set path)"
    by (simp add: psubset_card_mono)
  then show "\<And>x a b z. ((st, i # path, z), st, path, i)
      \<in> measure (\<lambda>(st, path, i). card (set (store_identifiers st) - set path))"
    by simp
qed

declare expand.simps [simp del]

definition identifier_of :: "Resource \<Rightarrow> ResourceIdentifier" where
  "identifier_of r = \<lparr>ri_type = res_type r, ri_id = res_id r\<rparr>"

text \<open>
  Modelled from the spec: \<^verbatim>\<open>denormaliseResource(item, store)\<close>, the
  \<^verbatim>\<open>denormalize(record, store)\<close> of section 4.4, which is not among the sources. The
  record given is expanded as it is; its relationships are expanded from the store, on
  the path that starts with its identifier.
\<close>

definition denormaliseResource :: "StoreResource \<Rightarrow> NgrxJsonApiStoreData \<Rightarrow> Denormalised" where
  "denormaliseResource item st =
     (let r = resource item; i = identifier_of r
      in Expanded i (attributes r)
           (map (\<lambda>(name, ref). (name, map_RelationshipReference (expand st [i]) ref))
              (relationships r)))"

text \<open>
  The service's \<^verbatim>\<open>denormalise\<close> combines the latest store record with the latest store
  data and applies \<^verbatim>\<open>denormaliseResource\<close> to the pair.
\<close>

definition denormalise :: "StoreResource \<Rightarrow> NgrxJsonApiStoreData \<Rightarrow> Denormalised" where
  "denormalise item storeData = denormaliseResource item storeData"

section \<open>Properties and examples\<close>

subsection \<open>What the properties are stated with\<close>


text \<open>
  A denormalised graph is well guarded on an expansion path when every placeholder in
  it stands for an identifier on the path to it, every expanded resource and every
  unresolved marker for one that is not, and an unresolved marker for an identifier the
  store does not hold. The path grows by each expanded resource on the way down.
\<close>

lemma size_target:
  "t \<in> set_RelationshipReference ref \<Longrightarrow> f t < size_RelationshipReference f ref"
  by (cases ref) (auto simp: less_Suc_eq_le size_list_estimation')

lemma size_rel:
  "(n, ref) \<in> set rels \<Longrightarrow> t \<in> set_RelationshipReference ref \<Longrightarrow>
     f t < size_list (size_prod g (size_RelationshipReference f)) rels"
proof -
  assume a: "(n, ref) \<in> set rels" and b: "t \<in> set_RelationshipReference ref"
  have "f t < size_RelationshipReference f ref" using b by (rule size_target)
  also have "\<dots> \<le> size_prod g (size_RelationshipReference f) (n, ref)" by simp
  also have "\<dots> \<le> size_list (size_prod g (size_RelationshipReference f)) rels"
    using a by (simp add: size_list_estimation')
  finally show ?thesis .
qed

function well_guarded :: "NgrxJsonApiStoreData \<Rightarrow> ResourceIdentifier list \<Rightarrow> Denormalised \<Rightarrow> bool" where
  "well_guarded st path (ReferencePlaceholder i) = (i \<in> set path)"
| "well_guarded st path (UnresolvedReference i) = (i \<notin> set path \<and> lookup_record st i = None)"
| "well_guarded st path (Expanded i as rels) =
     (i \<notin> set path \<and>
      (\<forall>(n, ref) \<in> set rels. \<forall>t \<in> set_RelationshipReference ref. well_guarded st (i # path) t))"
  by pat_completeness auto
termination
  by (relation "measure (\<lambda>(st, path, t). size t)") (auto simp: less_Suc_eq_le dest: size_rel[where f=size and g="\<lambda>_. 0"] intro: less_imp_le)

text \<open>
  The denormalised graph is compared with the store position by position. A position is
  the list of the indices chosen on the way down, each among the references of a
  resource taken in order (the relationships in order, a collection's members in
  order). \<open>node_at\<close> reads the result there: the kind of the node, its identifier and,
  for an expanded resource, its attributes and the names and kinds of its relationships.
\<close>

definition targets :: "'a RelationshipReference \<Rightarrow> 'a list" where
  "targets ref = (case ref of Single x \<Rightarrow> [x] | Collection xs \<Rightarrow> xs)"

definition references :: "(string \<times> 'a RelationshipReference) list \<Rightarrow> 'a list" where
  "references rels = concat (map (\<lambda>(name, ref). targets ref) rels)"

definition shape ::
  "(string \<times> 'a RelationshipReference) list \<Rightarrow> (string \<times> unit RelationshipReference) list" where
  "shape rels = map (\<lambda>(name, ref). (name, map_RelationshipReference (\<lambda>_. ()) ref)) rels"

datatype node =
    NExpanded ResourceIdentifier "(string \<times> json) list" "(string \<times> unit RelationshipReference) list"
  | NPlaceholder ResourceIdentifier
  | NUnresolved ResourceIdentifier

definition node_of :: "Denormalised \<Rightarrow> node" where
  "node_of t =
     (case t of
        Expanded i as rels \<Rightarrow> NExpanded i as (shape rels)
      | ReferencePlaceholder i \<Rightarrow> NPlaceholder i
      | UnresolvedReference i \<Rightarrow> NUnresolved i)"

definition children :: "Denormalised \<Rightarrow> Denormalised list" where
  "children t = (case t of Expanded i as rels \<Rightarrow> references rels | _ \<Rightarrow> [])"

fun subtree :: "Denormalised \<Rightarrow> nat list \<Rightarrow> Denormalised option" where
  "subtree t [] = Some t"
| "subtree t (p # ps) = (if p < length (children t) then subtree (children t ! p) ps else None)"

definition node_at :: "Denormalised \<Rightarrow> nat list \<Rightarrow> node option" where
  "node_at t ps = map_option node_of (subtree t ps)"

text \<open>
  \<open>trace\<close> and \<open>arrive\<close> read the same position in the store, without building
  anything: they follow the references of the resources from the record given, keeping
  the identifiers met on the way. Arriving at an identifier that is on the way already
  gives a placeholder and nothing below it, at one the store does not hold an unresolved
  marker and nothing below it, at another one the resource the store holds for it.
\<close>

fun trace ::
  "NgrxJsonApiStoreData \<Rightarrow> ResourceIdentifier list \<Rightarrow> ResourceIdentifier \<Rightarrow> Resource
     \<Rightarrow> nat list \<Rightarrow> node option"
and arrive ::
  "NgrxJsonApiStoreData \<Rightarrow> ResourceIdentifier list \<Rightarrow> ResourceIdentifier
     \<Rightarrow> nat list \<Rightarrow> node option" where
  "trace st path i r [] = Some (NExpanded i (attributes r) (shape (relationships r)))"
| "trace st path i r (p # ps) =
     (if p < length (references (relationships r))
      then arrive st (i # path) (references (relationships r) ! p) ps
      else None)"
| "arrive st path j ps =
     (if j \<in> set path then (if ps = [] then Some (NPlaceholder j) else None)
      else (case lookup_record st j of
        None \<Rightarrow> (if ps = [] then Some (NUnresolved j) else None)
      | Some rec \<Rightarrow> trace st path j (resource rec) ps))"

declare arrive.simps [simp del]

text \<open>
  A walk of identifiers from a resource revisits when each identifier is referenced by
  the resource before it, all but the last are new on the way and held by the store,
  and the last is on the way already: the walk closes a cycle of the relationship graph.
\<close>

fun revisits ::
  "NgrxJsonApiStoreData \<Rightarrow> ResourceIdentifier list \<Rightarrow> Resource \<Rightarrow> ResourceIdentifier list \<Rightarrow> bool" where
  "revisits st path r [] = False"
| "revisits st path r [j] = (j \<in> set (references (relationships r)) \<and> j \<in> set path)"
| "revisits st path r (j # j' # js) =
     (j \<in> set (references (relationships r)) \<and> j \<notin> set path \<and>
      (case lookup_record st j of
         None \<Rightarrow> False
       | Some rec \<Rightarrow> revisits st (j # path) (resource rec) (j' # js)))"


text \<open>
  The encoding of the query parameters in the specification's words (section 6): each
  concern has a pluggable encoding function, a concern left unconfigured uses the
  default one, and a concern whose key is not in the parameters of the query
  contributes the empty string.
\<close>

definition configured :: "NgrxJsonApi \<Rightarrow> (UrlBuilder \<Rightarrow> 'g option) \<Rightarrow> 'g option" where
  "configured api sel = (case config_urlBuilder (config api) of None \<Rightarrow> None | Some ub \<Rightarrow> sel ub)"

definition encoding :: "'g option \<Rightarrow> 'g \<Rightarrow> 'g" where
  "encoding conf dflt = (case conf of Some g \<Rightarrow> g | None \<Rightarrow> dflt)"

definition key_of :: "Query \<Rightarrow> (QueryParams \<Rightarrow> json option) \<Rightarrow> json option" where
  "key_of q k = (case params q of None \<Rightarrow> None | Some p \<Rightarrow> k p)"

definition concern :: "json option \<Rightarrow> (json \<Rightarrow> string) \<Rightarrow> string" where
  "concern key enc = (case key of None \<Rightarrow> [] | Some v \<Rightarrow> enc v)"

subsection \<open>Examples\<close>

text \<open>
  The query of the tests, a store whose articles and persons refer to each other, and an
  API whose generators and JavaScript functions are simple stand-ins.
\<close>

definition example_query :: Query where
  "example_query = \<lparr>queryId = Some ''22'', queryType = None, q_type = Some ''Article'',
     q_id = Some ''1'', params = None\<rparr>"

definition article1 :: Resource where
  "article1 = \<lparr>res_type = ''Article'', res_id = ''1'',
     attributes = [(''title'', JStr ''Hello'')],
     relationships = [(''author'', Single \<lparr>ri_type = ''Person'', ri_id = ''9''\<rparr>)]\<rparr>"

definition person9 :: Resource where
  "person9 = \<lparr>res_type = ''Person'', res_id = ''9'', attributes = [],
     relationships = [(''articles'',
       Collection [\<lparr>ri_type = ''Article'', ri_id = ''1''\<rparr>,
                   \<lparr>ri_type = ''Article'', ri_id = ''2''\<rparr>])]\<rparr>"

definition example_data :: NgrxJsonApiStoreData where
  "example_data =
     [(''Article'', [(''1'', \<lparr>resource = article1, persistedResource = Some article1\<rparr>)]),
      (''Person'', [(''9'', \<lparr>resource = person9, persistedResource = None\<rparr>)])]"


definition example_api :: NgrxJsonApi where
  "example_api =
     \<lparr>config = \<lparr>apiUrl = ''myapi.com'',
         resourceDefinitions = [\<lparr>def_type = ''Article'', collectionPath = Some ''articles''\<rparr>],
         config_urlBuilder = None\<rparr>,
      generateIncludedQueryParams = (\<lambda>v. ''include''),
      generateFilteringQueryParams = (\<lambda>v. ''filter''),
      generateFieldsQueryParams = (\<lambda>v. ''fields''),
      generateSortingQueryParams = (\<lambda>v. ''sort''),
      generateQueryParams = (\<lambda>a b c d e f. ''?'' @ a @ b @ c @ d @ e @ f),
      encodeURIComponent = (\<lambda>s. s),
      toString = (\<lambda>v. case v of JStr s \<Rightarrow> s | _ \<Rightarrow> ''0''),
      stringify = (\<lambda>r. res_id r)\<rparr>"

subsection \<open>Results of a single-resource query\<close>


subsection \<open>Local and remote edits\<close>

text \<open>
  Claim C2. With \<^verbatim>\<open>toRemote = false\<close>, \<^verbatim>\<open>patchResource\<close>, \<^verbatim>\<open>postResource\<close> and
  \<^verbatim>\<open>deleteResource\<close> dispatch the store action alone (\<^verbatim>\<open>PatchStoreResourceAction\<close>,
  \<^verbatim>\<open>PostStoreResourceAction\<close>, \<^verbatim>\<open>DeleteStoreResourceAction\<close>); with \<^verbatim>\<open>toRemote = true\<close> they
  dispatch the remote action alone (\<^verbatim>\<open>ApiUpdateInitAction\<close>, \<^verbatim>\<open>ApiCreateInitAction\<close>,
  \<^verbatim>\<open>ApiDeleteInitAction\<close>), at once and without a store action that \<^verbatim>\<open>apply\<close> would
  pick up later. Nothing else of the service changes.
\<close>

theorem edits_dispatch:
  "patchResource r False s = s\<lparr>dispatched := dispatched s @ [PatchStoreResourceAction r]\<rparr> \<and>
   postResource r False s = s\<lparr>dispatched := dispatched s @ [PostStoreResourceAction r]\<rparr> \<and>
   deleteResource i False s = s\<lparr>dispatched := dispatched s @ [DeleteStoreResourceAction i]\<rparr> \<and>
   patchResource r True s = s\<lparr>dispatched := dispatched s @ [ApiUpdateInitAction
      \<lparr>jsonApiData = Some \<lparr>doc_data = \<lparr>res_type = res_type r, res_id = res_id r,
           attributes = attributes r, relationships = relationships r\<rparr>\<rparr>,
       query = Some \<lparr>queryId = None, queryType = Some ''update'', q_type = Some (res_type r),
           q_id = Some (res_id r), params = None\<rparr>\<rparr>]\<rparr> \<and>
   postResource r True s = s\<lparr>dispatched := dispatched s @ [ApiCreateInitAction
      \<lparr>jsonApiData = Some \<lparr>doc_data = \<lparr>res_type = res_type r, res_id = res_id r,
           attributes = attributes r, relationships = relationships r\<rparr>\<rparr>,
       query = Some \<lparr>queryId = None, queryType = Some ''create'', q_type = Some (res_type r),
           q_id = None, params = None\<rparr>\<rparr>]\<rparr> \<and>
   deleteResource i True s = s\<lparr>dispatched := dispatched s @ [ApiDeleteInitAction
      \<lparr>jsonApiData = None,
       query = Some \<lparr>queryId = None, queryType = Some ''deleteOne'', q_type = Some (ri_type i),
           q_id = Some (ri_id i), params = None\<rparr>\<rparr>]\<rparr>"
  by (simp add: patchResource_def postResource_def deleteResource_def dispatch_def)

subsection \<open>The end of a subscription\<close>










subsection \<open>Cycles in denormalisation\<close>

lemma wg_expand: "well_guarded st path (expand st path i)"
proof (induction st path i rule: expand.induct)
  case (1 st path i)
  show ?case
  proof (cases "i \<in> set path")
    case True
    then show ?thesis by (subst expand.simps) simp
  next
    case False
    show ?thesis
    proof (cases "lookup_record st i")
      case None
      with False show ?thesis by (subst expand.simps) simp
    next
      case (Some r)
      have "\<And>n ref z. (n, ref) \<in> set (relationships (resource r)) \<Longrightarrow> z \<in> set_RelationshipReference ref
         \<Longrightarrow> well_guarded st (i # path) (expand st (i # path) z)"
        using "1.IH"[OF False Some] by blast
      with False Some show ?thesis
        by (subst expand.simps) (auto simp: RelationshipReference.set_map)
    qed
  qed
qed

lemma targets_map: "targets (map_RelationshipReference f ref) = map f (targets ref)"
  by (cases ref) (simp_all add: targets_def)

lemma references_map:
  "references (map (\<lambda>(name, ref). (name, map_RelationshipReference f ref)) rels)
     = map f (references rels)"
  by (induction rels) (auto simp: references_def targets_map)

lemma shape_map:
  "shape (map (\<lambda>(name, ref). (name, map_RelationshipReference f ref)) rels) = shape rels"
  by (induction rels) (auto simp: shape_def RelationshipReference.map_comp comp_def)

lemma node_at_leaf:
  "children t = [] \<Longrightarrow> node_at t ps = (if ps = [] then Some (node_of t) else None)"
  by (cases ps) (simp_all add: node_at_def)

lemma node_at_expand: "node_at (expand st path j) ps = arrive st path j ps"
proof (induction ps arbitrary: path j)
  case Nil
  show ?case
    by (subst expand.simps, subst arrive.simps)
       (simp add: node_at_def node_of_def shape_map split: option.splits)
next
  case (Cons p ps)
  show ?case
  proof (cases "j \<in> set path")
    case True
    then show ?thesis
      by (subst expand.simps, subst arrive.simps) (simp add: node_at_def children_def)
  next
    case False
    show ?thesis
    proof (cases "lookup_record st j")
      case None
      with False show ?thesis
        by (subst expand.simps, subst arrive.simps) (simp add: node_at_def children_def)
    next
      case (Some r)
      have step: "node_at (expand st (j # path) z) ps = arrive st (j # path) z ps" for z
        by (rule Cons.IH)
      from False Some show ?thesis
        by (subst expand.simps, subst arrive.simps)
           (simp add: node_at_def children_def references_map step[unfolded node_at_def])
    qed
  qed
qed

lemma node_at_denormalise:
  "node_at (denormalise item st) ps
     = trace st [] (identifier_of (resource item)) (resource item) ps"
proof (cases ps)
  case Nil
  then show ?thesis
    by (simp add: denormalise_def denormaliseResource_def Let_def node_at_def node_of_def shape_map)
next
  case (Cons p ps')
  have "node_at (expand st [identifier_of (resource item)] z) ps'
      = arrive st [identifier_of (resource item)] z ps'" for z
    by (rule node_at_expand)
  then show ?thesis
    using Cons
    by (simp add: denormalise_def denormaliseResource_def Let_def node_at_def children_def
        references_map)
qed

lemma trace_revisits:
  "revisits st (i # path) r js \<Longrightarrow>
     \<exists>ps. length ps = length js \<and> trace st path i r ps = Some (NPlaceholder (last js))"
proof (induction st "i # path" r js arbitrary: i path rule: revisits.induct)
  case (1 st r)
  then show ?case by simp
next
  case (2 st r j)
  then obtain p where p: "p < length (references (relationships r))"
      and at: "references (relationships r) ! p = j"
    by (auto simp: in_set_conv_nth)
  have "trace st path i r [p] = Some (NPlaceholder j)"
    using 2 p at by (simp add: arrive.simps)
  then show ?case by (intro exI[of _ "[p]"]) simp
next
  case (3 st r j j' js)
  from "3.prems" obtain rec where ref: "j \<in> set (references (relationships r))"
      and fresh: "j \<notin> set (i # path)" and found: "lookup_record st j = Some rec"
      and rest: "revisits st (j # i # path) (resource rec) (j' # js)"
    by (auto split: option.splits)
  from ref obtain p where p: "p < length (references (relationships r))"
      and at: "references (relationships r) ! p = j"
    by (auto simp: in_set_conv_nth)
  from "3.hyps"[OF found rest]
  obtain ps where len: "length ps = length (j' # js)"
      and tr: "trace st (i # path) j (resource rec) ps = Some (NPlaceholder (last (j' # js)))"
    by blast
  have "trace st path i r (p # ps) = Some (NPlaceholder (last (j # j' # js)))"
    using p at fresh found tr by (simp add: arrive.simps)
  with len show ?case by (intro exI[of _ "p # ps"]) simp
qed

lemma placeholder_is_leaf:
  "node_at t qs = Some (NPlaceholder j) \<Longrightarrow> node_at t (qs @ [p]) = None"
proof (induction qs arbitrary: t)
  case Nil
  then show ?case
    by (cases t) (simp_all add: node_at_def node_of_def children_def)
next
  case (Cons q qs)
  then show ?case
    by (simp add: node_at_def split: if_splits)
qed

text \<open>
  Claim C4. Denormalisation is a total function: it terminates on every record and
  store, cyclic or not. At every position its result is what following the references
  in the store from the record gives there, so it holds the resources of the store and
  nothing else. Its result is well guarded: no identifier is expanded below itself.
  Wherever a walk along the references of the store from the record comes back to an
  identifier that is on the walk already, the result holds a reference-only placeholder
  of that identifier at the end of the walk, with nothing below it.
\<close>

theorem denormalise_guards_cycles:
  "node_at (denormalise item st) ps
     = trace st [] (identifier_of (resource item)) (resource item) ps \<and>
   well_guarded st [] (denormalise item st) \<and>
   (revisits st [identifier_of (resource item)] (resource item) js \<longrightarrow>
      (\<exists>qs. length qs = length js \<and>
         node_at (denormalise item st) qs = Some (NPlaceholder (last js)) \<and>
         (\<forall>p. node_at (denormalise item st) (qs @ [p]) = None)))"
proof (intro conjI impI)
  show "node_at (denormalise item st) ps
     = trace st [] (identifier_of (resource item)) (resource item) ps"
    by (rule node_at_denormalise)
  show "well_guarded st [] (denormalise item st)"
    by (auto simp: denormalise_def denormaliseResource_def Let_def RelationshipReference.set_map
        wg_expand)
next
  assume "revisits st [identifier_of (resource item)] (resource item) js"
  then obtain qs where len: "length qs = length js"
      and tr: "trace st [] (identifier_of (resource item)) (resource item) qs
                 = Some (NPlaceholder (last js))"
    using trace_revisits by blast
  have here: "node_at (denormalise item st) qs = Some (NPlaceholder (last js))"
    using tr by (simp add: node_at_denormalise)
  have below: "node_at (denormalise item st) (qs @ [p]) = None" for p
    using here by (rule placeholder_is_leaf)
  from len here below
  show "\<exists>qs. length qs = length js \<and>
         node_at (denormalise item st) qs = Some (NPlaceholder (last js)) \<and>
         (\<forall>p. node_at (denormalise item st) (qs @ [p]) = None)"
    by blast
qed

theorem denormalise_guards_cycles_witness:
  "revisits example_data [\<lparr>ri_type = ''Article'', ri_id = ''1''\<rparr>] article1
     [\<lparr>ri_type = ''Person'', ri_id = ''9''\<rparr>, \<lparr>ri_type = ''Article'', ri_id = ''1''\<rparr>] \<and>
   node_at (denormalise \<lparr>resource = article1, persistedResource = Some article1\<rparr> example_data)
       [0, 0]
     = Some (NPlaceholder \<lparr>ri_type = ''Article'', ri_id = ''1''\<rparr>) \<and>
   node_at (denormalise \<lparr>resource = article1, persistedResource = Some article1\<rparr> example_data)
       [0, 0, 0]
     = None \<and>
   well_guarded example_data []
     (denormalise \<lparr>resource = article1, persistedResource = Some article1\<rparr> example_data) \<and>
   denormalise \<lparr>resource = article1, persistedResource = Some article1\<rparr> example_data
     = Expanded \<lparr>ri_type = ''Article'', ri_id = ''1''\<rparr> [(''title'', JStr ''Hello'')]
         [(''author'', Single
            (Expanded \<lparr>ri_type = ''Person'', ri_id = ''9''\<rparr> []
               [(''articles'', Collection
                  [ReferencePlaceholder \<lparr>ri_type = ''Article'', ri_id = ''1''\<rparr>,
                   UnresolvedReference \<lparr>ri_type = ''Article'', ri_id = ''2''\<rparr>])]))]"
  using denormalise_guards_cycles[where st = example_data
      and item = "\<lparr>resource = article1, persistedResource = Some article1\<rparr>"
      and ps = "[0, 0]"
      and js = "[\<lparr>ri_type = ''Person'', ri_id = ''9''\<rparr>, \<lparr>ri_type = ''Article'', ri_id = ''1''\<rparr>]"]
  by (simp add: denormalise_def denormaliseResource_def Let_def identifier_of_def expand.simps
      lookup_record_def example_data_def article1_def person9_def node_at_def node_of_def
      children_def references_def targets_def shape_def)

subsection \<open>Snapshots\<close>

text \<open>
  Claim C5. \<^verbatim>\<open>getResourceSnapshot\<close> returns the resource, and
  \<^verbatim>\<open>getPersistedResourceSnapshot\<close> the persisted resource, of the record that the
  snapshot of the store holds for the identifier, and \<^verbatim>\<open>null\<close> when it holds none;
  both leave the service, its snapshot included, as it was.
\<close>

theorem snapshots_read_only:
  "getResourceSnapshot i s =
     ((case lookup_record (data (storeSnapshot s)) i of
         None \<Rightarrow> None
       | Some r \<Rightarrow> Some (resource r)), s) \<and>
   getPersistedResourceSnapshot i s =
     ((case lookup_record (data (storeSnapshot s)) i of
         None \<Rightarrow> None
       | Some r \<Rightarrow> persistedResource r), s)"
  by (simp add: getResourceSnapshot_def getPersistedResourceSnapshot_def lookup_record_def
      Let_def split: option.splits)

subsection \<open>What a find dispatches\<close>

text \<open>
  Claim C6. With \<^verbatim>\<open>fromServer = true\<close>, \<^verbatim>\<open>findOne\<close> and \<^verbatim>\<open>findMany\<close> dispatch one
  action, an \<^verbatim>\<open>ApiReadInitAction\<close> whose payload carries the query; with
  \<^verbatim>\<open>fromServer = false\<close> they dispatch one action, a \<^verbatim>\<open>QueryStoreInitAction\<close> of the
  query, and no remote read.
\<close>

theorem find_dispatches:
  "dispatched (fst (snd (findOne q True asResource s)))
     = dispatched s @ [ApiReadInitAction \<lparr>jsonApiData = None,
         query = Some (q\<lparr>queryType := Some ''getOne''\<rparr>)\<rparr>] \<and>
   dispatched (fst (snd (findOne q False asResource s)))
     = dispatched s @ [QueryStoreInitAction (q\<lparr>queryType := Some ''getOne''\<rparr>)] \<and>
   dispatched (fst (snd (findMany q True asResource s)))
     = dispatched s @ [ApiReadInitAction \<lparr>jsonApiData = None,
         query = Some (q\<lparr>queryType := Some ''getMany''\<rparr>)\<rparr>] \<and>
   dispatched (fst (snd (findMany q False asResource s)))
     = dispatched s @ [QueryStoreInitAction (q\<lparr>queryType := Some ''getMany''\<rparr>)]"
  by (simp add: findOne_def findMany_def findInternal_def dispatch_def Let_def)

text \<open>
  Claim C8. \<^verbatim>\<open>findOne\<close> sets \<^verbatim>\<open>queryType\<close> of the caller's query object to
  \<^verbatim>\<open>getOne\<close> and \<^verbatim>\<open>findMany\<close> sets it to \<^verbatim>\<open>getMany\<close>, whatever it was, and leaves
  the other fields; the object is changed before it is handed to \<^verbatim>\<open>findInternal\<close>,
  which dispatches it.
\<close>

theorem find_overwrites_queryType:
  "fst (findOne q fromServer asResource s) = q\<lparr>queryType := Some ''getOne''\<rparr> \<and>
   fst (findMany q fromServer asResource s) = q\<lparr>queryType := Some ''getMany''\<rparr> \<and>
   fst (snd (findOne q fromServer asResource s))
     = findInternal (fst (findOne q fromServer asResource s)) fromServer s \<and>
   fst (snd (findMany q fromServer asResource s))
     = findInternal (fst (findMany q fromServer asResource s)) fromServer s"
  by (simp add: findOne_def findMany_def Let_def)

subsection \<open>The parameters of a read request\<close>

lemma param_of_concern:
  "param_of q p_include enc = concern (key_of q p_include) enc"
  "param_of q p_filtering enc = concern (key_of q p_filtering) enc"
  "param_of q p_sorting enc = concern (key_of q p_sorting) enc"
  "param_of q p_fields enc = concern (key_of q p_fields) enc"
  "param_of q p_limit enc = concern (key_of q p_limit) enc"
  "param_of q p_offset enc = concern (key_of q p_offset) enc"
  by (auto simp: param_of_def concern_def key_of_def isEmpty_def split: option.splits)

lemma chosen_encoding: "chosen dflt sel api = encoding (configured api sel) dflt"
  by (simp add: chosen_def encoding_def configured_def split: option.splits)

text \<open>
  Claim C7. For a query and a configuration, \<^verbatim>\<open>find\<close> requests the URL of the query
  followed by the assembled parameters. The assembly and the encodings of
  \<^verbatim>\<open>include\<close>, \<^verbatim>\<open>filtering\<close>, \<^verbatim>\<open>sorting\<close> and \<^verbatim>\<open>fields\<close> are the functions of
  \<^verbatim>\<open>config.urlBuilder\<close> where it has them and the default ones otherwise; a concern
  whose key is not in \<^verbatim>\<open>query.params\<close> contributes the empty string; \<^verbatim>\<open>limit\<close> and
  \<^verbatim>\<open>offset\<close> are encoded as \<^verbatim>\<open>page[limit]=\<close> and \<^verbatim>\<open>page[offset]=\<close> followed by the
  value, whatever the configuration.
\<close>

theorem find_request_parameters:
  "find_api api (Some q) =
     Inr (request Get
       (urlBuilder api q GET @
        encoding (configured api ub_generateQueryParams) (generateQueryParams api)
          (concern (key_of q p_include)
             (encoding (configured api ub_generateIncludedQueryParams) (generateIncludedQueryParams api)))
          (concern (key_of q p_filtering)
             (encoding (configured api ub_generateFilteringQueryParams) (generateFilteringQueryParams api)))
          (concern (key_of q p_sorting)
             (encoding (configured api ub_generateSortingQueryParams) (generateSortingQueryParams api)))
          (concern (key_of q p_fields)
             (encoding (configured api ub_generateFieldsQueryParams) (generateFieldsQueryParams api)))
          (concern (key_of q p_offset) (\<lambda>v. ''page[offset]='' @ toString api v))
          (concern (key_of q p_limit) (\<lambda>v. ''page[limit]='' @ toString api v)))
       None)"
  by (simp add: find_api_def typeof_is_undefined_def Let_def param_of_concern chosen_encoding)

subsection \<open>The guards of the API methods\<close>



subsection \<open>The URL of an operation\<close>

text \<open>
  Claim C10. For a query without an id (\<^verbatim>\<open>undefined\<close> or empty, as the guard reads it),
  \<^verbatim>\<open>urlBuilder\<close> with \<^verbatim>\<open>DELETE\<close> or \<^verbatim>\<open>PATCH\<close> falls through to the case \<^verbatim>\<open>POST\<close>
  and returns the collection URL of the query's type; with a type and an id, \<^verbatim>\<open>GET\<close>,
  \<^verbatim>\<open>DELETE\<close> and \<^verbatim>\<open>PATCH\<close> return the URL of the resource.
\<close>

theorem urlBuilder_fallthrough:
  "(\<not> truthy (q_id q) \<longrightarrow>
      urlBuilder api q DELETE = collectionUrlFor api (q_type q) \<and>
      urlBuilder api q PATCH = collectionUrlFor api (q_type q)) \<and>
   (q_type q = Some t \<and> t \<noteq> [] \<and> q_id q = Some i \<and> i \<noteq> [] \<longrightarrow>
      urlBuilder api q GET = resourceUrlFor api t i \<and>
      urlBuilder api q DELETE = resourceUrlFor api t i \<and>
      urlBuilder api q PATCH = resourceUrlFor api t i)"
  by (auto simp: urlBuilder_def urlBuilder_GET_def urlBuilder_DELETE_def urlBuilder_PATCH_def
      urlBuilder_POST_def type_and_id_def truthy_def split: option.splits)

theorem urlBuilder_fallthrough_witness:
  "\<not> truthy (q_id (example_query\<lparr>q_id := None\<rparr>)) \<and>
   urlBuilder example_api (example_query\<lparr>q_id := None\<rparr>) DELETE = ''myapi.com/articles'' \<and>
   urlBuilder example_api (example_query\<lparr>q_id := None\<rparr>) PATCH = ''myapi.com/articles'' \<and>
   q_type example_query = Some ''Article'' \<and> q_id example_query = Some ''1'' \<and>
   urlBuilder example_api example_query GET = ''myapi.com/articles/1'' \<and>
   urlBuilder example_api example_query DELETE = ''myapi.com/articles/1'' \<and>
   urlBuilder example_api example_query PATCH = ''myapi.com/articles/1''"
  using urlBuilder_fallthrough[where q = "example_query\<lparr>q_id := None\<rparr>" and api = example_api]
    urlBuilder_fallthrough[where q = example_query and t = "''Article''" and i = "''1''"
      and api = example_api]
  by (simp add: example_query_def example_api_def truthy_def collectionUrlFor_def
      collectionPathFor_def definitions_def template_def resourceUrlFor_def resourcePathFor_def)

end
